theory Spec2Isabelle
  imports Complex_Main
begin

section \<open>Python values and errors\<close>

text \<open>
  Exceptions are values of \<open>error\<close>; a function that can raise returns
  \<open>error + 'a\<close> with \<open>Inl\<close> for the exception. The floats of the contrast analyzer
  are modelled as \<^typ>\<open>real\<close>: its statements are about the arithmetic the code writes
  down, not about the rounding of doubles. The colour-blindness simulator turns doubles
  into bytes, where rounding shows, so its double arithmetic is a parameter of the model.
\<close>

datatype error = ValueError | ZeroDivisionError | OSError

text \<open>An RGB colour as the code receives it: a sequence of channel values.\<close>

type_synonym color = "int list"

section \<open>color_contrast_analyzer.py: luminance and contrast ratio\<close>

text \<open>
  The expression that \<open>relative_luminance\<close> writes out once per channel:
  \<^verbatim>\<open>r / 12.92 if r <= 0.03928 else ((r + 0.055) / 1.055) ** 2.4\<close>.
  The power is only taken of a positive base, where Python's \<open>**\<close> is \<open>powr\<close>.
\<close>

definition linearize :: "real \<Rightarrow> real" where
  "linearize c = (if c \<le> 0.03928 then c / 12.92 else ((c + 0.055) / 1.055) powr 2.4)"

text \<open>
  \<^verbatim>\<open>r, g, b = [x / 255.0 for x in rgb[:3]]\<close> raises ValueError when the slice has
  fewer than three elements.
\<close>

definition relative_luminance :: "color \<Rightarrow> error + real" where
  "relative_luminance rgb =
     (case map (\<lambda>x. real_of_int x / 255) (take 3 rgb) of
        [r, g, b] \<Rightarrow> Inr (0.2126 * linearize r + 0.7152 * linearize g + 0.0722 * linearize b)
      | _ \<Rightarrow> Inl ValueError)"

definition calculate_contrast_ratio :: "color \<Rightarrow> color \<Rightarrow> error + real" where
  "calculate_contrast_ratio color1 color2 =
     (case relative_luminance color1 of
        Inl e \<Rightarrow> Inl e
      | Inr l1 \<Rightarrow>
          (case relative_luminance color2 of
             Inl e \<Rightarrow> Inl e
           | Inr l2 \<Rightarrow>
               (let lighter = max l1 l2; darker = min l1 l2
                in if darker + 0.05 = 0 then Inl ZeroDivisionError
                   else Inr ((lighter + 0.05) / (darker + 0.05)))))"

text \<open>A colour of the data model: exactly three channels, each in 0..255.\<close>

definition valid_rgb :: "color \<Rightarrow> bool" where
  "valid_rgb c \<longleftrightarrow> length c = 3 \<and> (\<forall>v \<in> set c. 0 \<le> v \<and> v \<le> 255)"

subsection \<open>The WCAG 2.1 algorithm as the specification words it\<close>

definition wcag_normalize :: "int \<Rightarrow> real" where
  "wcag_normalize v = real_of_int v / 255"

definition wcag_linear :: "real \<Rightarrow> real" where
  "wcag_linear c = (if c \<le> 0.03928 then c / 12.92 else ((c + 0.055) / 1.055) powr 2.4)"

definition wcag_luminance :: "int \<Rightarrow> int \<Rightarrow> int \<Rightarrow> real" where
  "wcag_luminance r g b =
     0.2126 * wcag_linear (wcag_normalize r) + 0.7152 * wcag_linear (wcag_normalize g)
       + 0.0722 * wcag_linear (wcag_normalize b)"

definition wcag_ratio :: "real \<Rightarrow> real \<Rightarrow> real" where
  "wcag_ratio L1 L2 = (max L1 L2 + 0.05) / (min L1 L2 + 0.05)"

section \<open>colorblind_simulator.py: the colour-vision-deficiency transform\<close>

text \<open>
  One entry of the class attribute \<open>TRANSFORMATIONS\<close>. The dictionary is kept as an
  association list in the order the source writes it; \<open>cvd_type in TRANSFORMATIONS\<close>
  is \<open>map_of TRANSFORMATIONS cvd_type \<noteq> None\<close>.
\<close>

record transformation =
  name :: string
  severity :: string
  matrix :: "real list list"

definition TRANSFORMATIONS :: "(string \<times> transformation) list" where
  "TRANSFORMATIONS =
    [(''protanopia'',
        \<lparr>name = ''Protanopia (Red-blind)'', severity = ''complete'',
         matrix = [[0.567, 0.433, 0.0], [0.558, 0.442, 0.0], [0.0, 0.242, 0.758]]\<rparr>),
     (''deuteranopia'',
        \<lparr>name = ''Deuteranopia (Green-blind)'', severity = ''complete'',
         matrix = [[0.625, 0.375, 0.0], [0.7, 0.3, 0.0], [0.0, 0.3, 0.7]]\<rparr>),
     (''tritanopia'',
        \<lparr>name = ''Tritanopia (Blue-blind)'', severity = ''complete'',
         matrix = [[0.95, 0.05, 0.0], [0.0, 0.433, 0.567], [0.0, 0.475, 0.525]]\<rparr>),
     (''protanomaly'',
        \<lparr>name = ''Protanomaly (Red-weak)'', severity = ''partial'',
         matrix = [[0.817, 0.183, 0.0], [0.333, 0.667, 0.0], [0.0, 0.125, 0.875]]\<rparr>),
     (''deuteranomaly'',
        \<lparr>name = ''Deuteranomaly (Green-weak)'', severity = ''partial'',
         matrix = [[0.8, 0.2, 0.0], [0.258, 0.742, 0.0], [0.0, 0.142, 0.858]]\<rparr>),
     (''tritanomaly'',
        \<lparr>name = ''Tritanomaly (Blue-weak)'', severity = ''partial'',
         matrix = [[0.967, 0.033, 0.0], [0.0, 0.733, 0.267], [0.0, 0.183, 0.817]]\<rparr>),
     (''achromatopsia'',
        \<lparr>name = ''Achromatopsia (Total color blindness)'', severity = ''complete'',
         matrix = [[0.299, 0.587, 0.114], [0.299, 0.587, 0.114], [0.299, 0.587, 0.114]]\<rparr>),
     (''achromatomaly'',
        \<lparr>name = ''Achromatomaly (Blue cone monochromacy)'', severity = ''complete'',
         matrix = [[0.618, 0.320, 0.062], [0.163, 0.775, 0.062], [0.163, 0.320, 0.516]]\<rparr>)]"

text \<open>
  The array \<open>np.array(img)\<close> of an opened image: its shape and its values in row-major
  order. PIL yields shape \<open>[h, w]\<close> for single-band images and \<open>[h, w, c]\<close> otherwise.
\<close>

record image =
  shape :: "nat list"
  flat :: "int list"

text \<open>
  \<open>reshape(-1, 3)\<close> on the flat data: consecutive groups of three values, and a
  ValueError when the size is not a multiple of three.
\<close>

fun triples :: "'a list \<Rightarrow> 'a list list" where
  "triples (a # b # c # xs) = [a, b, c] # triples xs"
| "triples _ = []"

definition reshape_rows3 :: "'a list \<Rightarrow> 'a list list option" where
  "reshape_rows3 xs = (if length xs mod 3 = 0 then Some (triples xs) else None)"

text \<open>
  The double arithmetic of the platform, as far as the transform uses it: \<open>fl_round\<close>
  takes the exact result of one operation to the double that the operation returns, and
  \<open>fl_dot p row\<close> is the double that \<open>np.dot\<close> returns for the pixel \<open>p\<close> and the
  matrix row written \<open>row\<close> (the rounding of the literals, the order of the additions
  and the use of fused operations are the library's).
\<close>

record float64 =
  fl_round :: "real \<Rightarrow> real"
  fl_dot :: "real list \<Rightarrow> real list \<Rightarrow> real"

definition fl_div :: "float64 \<Rightarrow> real \<Rightarrow> real \<Rightarrow> real" where
  "fl_div fa x y = fl_round fa (x / y)"

definition fl_mul :: "float64 \<Rightarrow> real \<Rightarrow> real \<Rightarrow> real" where
  "fl_mul fa x y = fl_round fa (x * y)"

text \<open>One row of \<open>np.dot(pixels, matrix.T)\<close>: the pixel against every row of the matrix.\<close>

definition dot_row :: "float64 \<Rightarrow> real list list \<Rightarrow> real list \<Rightarrow> real list" where
  "dot_row fa m p = map (\<lambda>row. fl_dot fa p row) m"

text \<open>
  \<open>np.clip\<close> takes the larger of the value and the lower bound, then the smaller of
  that and the upper bound; neither step rounds.
\<close>

definition clip :: "real \<Rightarrow> real \<Rightarrow> real \<Rightarrow> real" where
  "clip x lo hi = min hi (max lo x)"

text \<open>
  \<open>astype(np.uint8)\<close> drops the fraction towards zero and keeps the low eight bits.
\<close>

definition astype_uint8 :: "real \<Rightarrow> int" where
  "astype_uint8 x = (if 0 \<le> x then \<lfloor>x\<rfloor> else \<lceil>x\<rceil>) mod 256"

text \<open>
  \<open>simulate_colorblindness\<close>. The file system is the function \<open>fs\<close> from a path to the
  array of the image stored there, \<open>None\<close> where \<open>Image.open\<close> raises. The result
  is paired with the list of paths the call has opened; the method assigns no attribute
  of the simulator, so this list is all of its effect. \<open>Inl\<close> is the exception that
  leaves the method, \<open>Inr None\<close> the \<open>return None\<close> of the handler that catches
  everything raised inside the \<open>try\<close>. The image is not converted to RGB: an array
  of any number of channels is regrouped in threes.
\<close>

definition simulate_colorblindness ::
  "float64 \<Rightarrow> (string \<Rightarrow> image option) \<Rightarrow> string \<Rightarrow> string
     \<Rightarrow> (error + image option) \<times> string list" where
  "simulate_colorblindness fa fs image_path cvd_type =
     (case map_of TRANSFORMATIONS cvd_type of
        None \<Rightarrow> (Inl ValueError, [])
      | Some t \<Rightarrow>
          (case fs image_path of
             None \<Rightarrow> (Inr None, [image_path])
           | Some img \<Rightarrow>
               (let img_array = map (\<lambda>v. fl_div fa (real_of_int v) 255) (flat img);
                    stacked = (length (shape img) = 2);
                    original_shape = (if stacked then shape img @ [3] else shape img);
                    values = (if stacked then concat (map (\<lambda>v. [v, v, v]) img_array) else img_array)
                in case reshape_rows3 values of
                     None \<Rightarrow> (Inr None, [image_path])
                   | Some pixels \<Rightarrow>
                       (let simulated_pixels =
                              map (\<lambda>p. map (\<lambda>x. clip x 0 1) (dot_row fa (matrix t) p)) pixels;
                            simulated_array =
                              map (\<lambda>x. astype_uint8 (fl_mul fa x 255)) (concat simulated_pixels)
                        in (Inr (Some \<lparr>shape = original_shape, flat = simulated_array\<rparr>),
                            [image_path])))))"

text \<open>
  A screenshot of the data model: height by width by three channels, or a single-band
  (greyscale) image, which the code widens to three equal channels.
\<close>

definition valid_image :: "image \<Rightarrow> bool" where
  "valid_image img \<longleftrightarrow>
     (case shape img of
        [h, w] \<Rightarrow> length (flat img) = h * w
      | [h, w, c] \<Rightarrow> c = 3 \<and> length (flat img) = h * w * 3
      | _ \<Rightarrow> False)"

text \<open>The RGB vectors of the pixels of a screenshot, in row-major order.\<close>

definition rgb_pixels :: "image \<Rightarrow> int list list" where
  "rgb_pixels img =
     (if length (shape img) = 2 then map (\<lambda>v. [v, v, v]) (flat img) else triples (flat img))"

subsection \<open>What is used of double arithmetic\<close>

text \<open>
  Rounding keeps the order of its arguments and leaves the integers 0..255 as they are.
  The dot product of a pixel and a matrix row, both of three entries in the unit
  interval, is within a thousandth of the exact one; doubles are far closer.
  The arithmetic without any rounding has both properties.
\<close>

definition double_rounding :: "float64 \<Rightarrow> bool" where
  "double_rounding fa \<longleftrightarrow>
     (\<forall>x y. x \<le> y \<longrightarrow> fl_round fa x \<le> fl_round fa y) \<and>
     (\<forall>n::int. 0 \<le> n \<and> n \<le> 255 \<longrightarrow> fl_round fa (of_int n) = of_int n)"

definition accurate_dot :: "float64 \<Rightarrow> bool" where
  "accurate_dot fa \<longleftrightarrow>
     (\<forall>p row. length p = 3 \<and> length row = 3 \<and>
               (\<forall>x \<in> set p. 0 \<le> x \<and> x \<le> 1) \<and> (\<forall>x \<in> set row. 0 \<le> x \<and> x \<le> 1)
        \<longrightarrow> \<bar>fl_dot fa p row - sum_list (map2 (*) p row)\<bar> \<le> 1 / 1000)"

definition exact_arithmetic :: float64 where
  "exact_arithmetic =
     \<lparr>fl_round = (\<lambda>x. x), fl_dot = (\<lambda>p row. sum_list (map2 (*) p row))\<rparr>"

subsection \<open>The transform of one pixel as the specification words it\<close>

text \<open>
  The pixel's RGB vector, on the unit scale, is multiplied by the matrix; every entry of
  the product is clamped to the unit interval and then rescaled to the 8-bit range.
  The operations are those of the platform's double arithmetic.
\<close>

definition clamp_unit :: "real \<Rightarrow> real" where
  "clamp_unit x = (if x < 0 then 0 else if 1 < x then 1 else x)"

definition matrix_times :: "float64 \<Rightarrow> real list list \<Rightarrow> real list \<Rightarrow> real list" where
  "matrix_times fa m v = map (\<lambda>row. fl_dot fa v row) m"

definition cvd_pixel :: "float64 \<Rightarrow> real list list \<Rightarrow> int list \<Rightarrow> int list" where
  "cvd_pixel fa m rgb =
     map (\<lambda>x. \<lfloor>fl_mul fa (clamp_unit x) 255\<rfloor>)
       (matrix_times fa m (map (\<lambda>v. fl_div fa (real_of_int v) 255) rgb))"

subsection \<open>A four-channel image\<close>

text \<open>
  The array of a PNG of one row and three RGBA pixels: transparent black, opaque blue,
  opaque white.
\<close>

definition rgba_strip :: image where
  "rgba_strip = \<lparr>shape = [1, 3, 4], flat = [0, 0, 0, 0, 0, 0, 255, 255, 255, 255, 255, 255]\<rparr>"

text \<open>The eight variants of the data model.\<close>

definition cvd_variants :: "string list" where
  "cvd_variants =
     [''protanopia'', ''deuteranopia'', ''tritanopia'', ''protanomaly'',
      ''deuteranomaly'', ''tritanomaly'', ''achromatopsia'', ''achromatomaly'']"

section \<open>color_contrast_analyzer.py: checks, summaries and the command line\<close>

text \<open>
  A text region as \<open>detect_text_regions_ocr\<close> builds it (keys \<open>text\<close>, \<open>x\<close>, \<open>y\<close>,
  \<open>w\<close>, \<open>h\<close>, \<open>conf\<close>), and a colour pair as \<open>sample_color_pairs\<close> builds it.
  A location is the dictionary of its coordinates.
\<close>

record region =
  region_text :: string
  region_x :: int
  region_y :: int
  region_w :: int
  region_h :: int
  region_conf :: real

record color_pair =
  pair_fg_color :: color
  pair_bg_color :: color
  pair_location :: "(string \<times> int) list"
  sample_type :: string

text \<open>
  An opened screenshot, seen through the methods that read it with numpy, pytesseract
  and the random generator: what \<open>get_pixel_color\<close> and \<open>get_surrounding_color\<close>
  return on its array (\<open>None\<close> where their handler returns None), the regions
  \<open>detect_text_regions_ocr\<close> returns, and the pairs \<open>sample_color_pairs\<close> returns
  (\<open>None\<close> where it raises).
\<close>

record opened_image =
  get_pixel_color :: "int \<Rightarrow> int \<Rightarrow> color option"
  get_surrounding_color :: "int \<Rightarrow> int \<Rightarrow> int \<Rightarrow> color option"
  detect_text_regions_ocr :: "region list"
  sample_color_pairs :: "color_pair list option"

text \<open>
  The result dictionary of one check. The keys \<open>text\<close>, \<open>estimated_font_size\<close> and
  \<open>is_large_text\<close> exist for text checks only. The colours are kept as colours; the
  report prints them in hexadecimal.
\<close>

record contrast_check =
  check_type :: string
  check_text :: "string option"
  location :: "(string \<times> int) list"
  fg_color :: color
  bg_color :: color
  ratio :: real
  required :: real
  passes :: bool
  estimated_font_size :: "real option"
  is_large_text :: "bool option"
  wcag_criterion :: string
  check_severity :: string

text \<open>\<open>round(ratio, 2)\<close>: to two decimals, a tie going to the even neighbour.\<close>

definition round_half_even :: "real \<Rightarrow> int" where
  "round_half_even y =
     (let f = \<lfloor>y\<rfloor>
      in if y - of_int f < 1 / 2 then f
         else if 1 / 2 < y - of_int f then f + 1
         else if even f then f else f + 1)"

definition round2 :: "real \<Rightarrow> real" where
  "round2 r = of_int (round_half_even (r * 100)) / 100"

definition estimate_font_size :: "int \<Rightarrow> real" where
  "estimate_font_size height_px = of_int height_px * 0.75"

text \<open>
  \<open>check_text_contrast\<close>. \<open>not fg_color\<close> holds for None and for the empty tuple.
  Every exception raised inside the \<open>try\<close> ends in \<open>return None\<close>.
\<close>

definition check_text_contrast :: "opened_image \<Rightarrow> region \<Rightarrow> contrast_check option" where
  "check_text_contrast img region =
     (let cx = region_x region + region_w region div 2;
          cy = region_y region + region_h region div 2
      in case (get_pixel_color img cx cy,
               get_surrounding_color img cx cy (region_h region div 2 + 5)) of
           (Some fg, Some bg) \<Rightarrow>
             (if fg = [] \<or> bg = [] then None
              else case calculate_contrast_ratio fg bg of
                     Inl e \<Rightarrow> None
                   | Inr r \<Rightarrow>
                       (let estimated = estimate_font_size (region_h region);
                            is_large = (estimated \<ge> 18 \<or> estimated \<ge> 14);
                            required_ratio = (if is_large then 3.0 else 4.5);
                            ok = (r \<ge> required_ratio)
                        in Some \<lparr>check_type = ''text'',
                                 check_text = Some (region_text region),
                                 location = [(''x'', region_x region), (''y'', region_y region),
                                             (''w'', region_w region), (''h'', region_h region)],
                                 fg_color = fg, bg_color = bg,
                                 ratio = round2 r, required = required_ratio, passes = ok,
                                 estimated_font_size = Some estimated,
                                 is_large_text = Some is_large,
                                 wcag_criterion = ''1.4.3'',
                                 check_severity = (if \<not> ok then ''HIGH'' else ''PASS'')\<rparr>))
         | _ \<Rightarrow> None)"

definition check_color_pair_contrast :: "color_pair \<Rightarrow> contrast_check option" where
  "check_color_pair_contrast pair =
     (case calculate_contrast_ratio (pair_fg_color pair) (pair_bg_color pair) of
        Inl e \<Rightarrow> None
      | Inr r \<Rightarrow>
          (let required_ratio = 3.0; ok = (r \<ge> required_ratio)
           in Some \<lparr>check_type = ''color_sample'',
                    check_text = None,
                    location = pair_location pair,
                    fg_color = pair_fg_color pair, bg_color = pair_bg_color pair,
                    ratio = round2 r, required = required_ratio, passes = ok,
                    estimated_font_size = None, is_large_text = None,
                    wcag_criterion = ''1.4.11'',
                    check_severity = (if \<not> ok then ''MEDIUM'' else ''PASS'')\<rparr>))"

text \<open>
  The summary of one screenshot (keys \<open>total_checks\<close>, \<open>passed\<close>, \<open>failed\<close>,
  \<open>pass_rate\<close>, \<open>wcag_compliant\<close>) and the result of one screenshot. The time stamp
  is left out.
\<close>

record summary =
  total_checks :: nat
  passed_checks :: nat
  failed_checks :: nat
  pass_rate :: real
  wcag_compliant :: bool

record screenshot_result =
  screenshot :: string
  path :: string
  issues :: "contrast_check list"
  passed :: "contrast_check list"
  result_summary :: summary
  text_regions_found :: "nat option"

text \<open>
  The overall summary of \<open>get_summary\<close> (keys \<open>screenshots_analyzed\<close>,
  \<open>total_checks\<close>, \<open>total_passed\<close>, \<open>total_failed\<close>, \<open>overall_pass_rate\<close>,
  \<open>wcag_compliant\<close>).
\<close>

record overall_summary =
  screenshots_analyzed :: nat
  overall_total_checks :: nat
  total_passed :: nat
  total_failed :: nat
  overall_pass_rate :: real
  overall_wcag_compliant :: bool

text \<open>The attributes of the analyzer that its methods change.\<close>

record analyzer =
  screenshots :: "string list"
  contrast_results :: "screenshot_result list"

text \<open>
  What the program finds outside itself: whether pytesseract could be imported, which
  paths exist, what \<open>Image.open\<close> gives (\<open>None\<close> where it raises), what
  \<open>os.listdir\<close> gives (\<open>None\<close> where it raises), what \<open>capture_screenshot\<close>
  returns, the default report path, and which report paths can be written.
\<close>

record world =
  TESSERACT_AVAILABLE :: bool
  path_exists :: "string \<Rightarrow> bool"
  image_open :: "string \<Rightarrow> opened_image option"
  listdir :: "string \<Rightarrow> string list option"
  capture_screenshot :: "string option"
  default_output_path :: string
  can_write :: "string \<Rightarrow> bool"

definition basename :: "string \<Rightarrow> string" where
  "basename p = rev (takeWhile (\<lambda>c. c \<noteq> CHR ''/'') (rev p))"

text \<open>The two loops of \<open>analyze_screenshot\<close> that sort checks into issues and passed.\<close>

fun sort_checks ::
  "contrast_check option list \<Rightarrow> contrast_check list \<times> contrast_check list
     \<Rightarrow> contrast_check list \<times> contrast_check list" where
  "sort_checks [] (iss, pas) = (iss, pas)"
| "sort_checks (None # cs) (iss, pas) = sort_checks cs (iss, pas)"
| "sort_checks (Some c # cs) (iss, pas) =
     (if passes c then sort_checks cs (iss, pas @ [c]) else sort_checks cs (iss @ [c], pas))"

text \<open>The block \<open># Calculate summary\<close> of \<open>analyze_screenshot\<close>.\<close>

definition calculate_summary :: "contrast_check list \<Rightarrow> contrast_check list \<Rightarrow> summary" where
  "calculate_summary iss pas =
     (let total = length iss + length pas
      in \<lparr>total_checks = total,
          passed_checks = length pas,
          failed_checks = length iss,
          pass_rate = (if total > 0 then real (length pas) / real total * 100 else 0),
          wcag_compliant = (length iss = 0)\<rparr>)"

text \<open>
  \<open>analyze_screenshot\<close> returns the result, or None, and appends the result to
  \<open>contrast_results\<close>. Method 1 runs when pytesseract is there; method 2 runs when
  it is not, or when method 1 found no region.
\<close>

definition analyze_screenshot ::
  "world \<Rightarrow> analyzer \<Rightarrow> string \<Rightarrow> analyzer \<times> screenshot_result option" where
  "analyze_screenshot env a image_path =
     (if \<not> path_exists env image_path then (a, None)
      else case image_open env image_path of
             None \<Rightarrow> (a, None)
           | Some img \<Rightarrow>
               (let text_regions =
                      (if TESSERACT_AVAILABLE env then detect_text_regions_ocr img else []);
                    method1 =
                      (if TESSERACT_AVAILABLE env
                       then sort_checks (map (check_text_contrast img) text_regions) ([], [])
                       else ([], []));
                    method2 =
                      (if \<not> TESSERACT_AVAILABLE env \<or> length text_regions = 0
                       then map_option (\<lambda>color_pairs.
                              sort_checks (map check_color_pair_contrast color_pairs) method1)
                              (sample_color_pairs img)
                       else Some method1)
                in case method2 of
                     None \<Rightarrow> (a, None)
                   | Some (iss, pas) \<Rightarrow>
                       (let result =
                              \<lparr>screenshot = basename image_path, path = image_path,
                               issues = iss, passed = pas,
                               result_summary = calculate_summary iss pas,
                               text_regions_found =
                                 (if TESSERACT_AVAILABLE env then Some (length text_regions)
                                  else None)\<rparr>
                        in (a\<lparr>contrast_results := contrast_results a @ [result]\<rparr>,
                            Some result))))"



definition get_summary :: "analyzer \<Rightarrow> overall_summary" where
  "get_summary a =
     (if contrast_results a = [] then
        \<lparr>screenshots_analyzed = 0, overall_total_checks = 0, total_passed = 0,
         total_failed = 0, overall_pass_rate = 0, overall_wcag_compliant = False\<rparr>
      else
        (let total = sum_list (map (\<lambda>r. total_checks (result_summary r)) (contrast_results a));
             tpassed = sum_list (map (\<lambda>r. passed_checks (result_summary r)) (contrast_results a));
             tfailed = sum_list (map (\<lambda>r. failed_checks (result_summary r)) (contrast_results a))
         in \<lparr>screenshots_analyzed = length (contrast_results a),
             overall_total_checks = total,
             total_passed = tpassed,
             total_failed = tfailed,
             overall_pass_rate = (if total > 0 then real tpassed / real total * 100 else 0),
             overall_wcag_compliant = (tfailed = 0)\<rparr>))"












subsection \<open>The states of an analyzer\<close>

text \<open>
  An analyzer starts with no results, whatever its list of screenshots, and only
  \<open>analyze_screenshot\<close> changes it afterwards.
\<close>

inductive reachable :: "world \<Rightarrow> analyzer \<Rightarrow> bool" for env :: world where
  fresh: "reachable env \<lparr>screenshots = ps, contrast_results = []\<rparr>"
| analyzed: "reachable env a \<Longrightarrow> reachable env (fst (analyze_screenshot env a p))"

code_pred reachable .

subsection \<open>The summary invariant as the specification words it\<close>

text \<open>
  The total is passed plus failed, the pass rate is passed / total * 100 (0 when there
  is no check), and the summary is compliant exactly when nothing failed and at least
  one screenshot was analysed.
\<close>

definition summary_consistent :: "nat \<Rightarrow> nat \<Rightarrow> nat \<Rightarrow> real \<Rightarrow> bool \<Rightarrow> nat \<Rightarrow> bool" where
  "summary_consistent ntotal npassed nfailed rate compliant analysed \<longleftrightarrow>
     ntotal = npassed + nfailed \<and>
     rate = (if ntotal > 0 then real npassed / real ntotal * 100 else 0) \<and>
     (compliant \<longleftrightarrow> nfailed = 0 \<and> analysed \<ge> 1)"

subsection \<open>Example inputs\<close>

text \<open>
  A screenshot with a black pixel on a white surrounding, one sampled pair of the same
  colours, and no text found; a directory holding it next to a file that cannot be
  opened; an empty directory.
\<close>

definition black_on_white :: opened_image where
  "black_on_white =
     \<lparr>get_pixel_color = (\<lambda>x y. Some [0, 0, 0]),
      get_surrounding_color = (\<lambda>x y radius. Some [255, 255, 255]),
      detect_text_regions_ocr = [],
      sample_color_pairs =
        Some [\<lparr>pair_fg_color = [0, 0, 0], pair_bg_color = [255, 255, 255],
               pair_location = [(''x'', 5), (''y'', 5)], sample_type = ''random''\<rparr>]\<rparr>"

definition shots_world :: world where
  "shots_world =
     \<lparr>TESSERACT_AVAILABLE = False,
      path_exists = (\<lambda>p. p \<in> set [''shots'', ''shots/ok.png'', ''shots/broken.png'', ''empty'']),
      image_open = (\<lambda>p. if p = ''shots/ok.png'' then Some black_on_white else None),
      listdir = (\<lambda>d. if d = ''shots'' then Some [''ok.png'', ''broken.png'', ''notes.txt'']
                      else if d = ''empty'' then Some [] else None),
      capture_screenshot = None,
      default_output_path = ''qw6_color_contrast.json'',
      can_write = (\<lambda>p. True)\<rparr>"

definition fifteen_point_word :: region where
  "fifteen_point_word =
     \<lparr>region_text = ''Start'', region_x = 10, region_y = 10, region_w = 60, region_h = 20,
      region_conf = 90\<rparr>"

subsection \<open>The threshold rule as the specification words it\<close>

text \<open>
  Large text is text of at least 18pt, or of at least 14pt when bold; large text needs
  3:1, any other text 4.5:1.
\<close>

definition wcag_large_text :: "real \<Rightarrow> bool \<Rightarrow> bool" where
  "wcag_large_text pt bold \<longleftrightarrow> pt \<ge> 18 \<or> (pt \<ge> 14 \<and> bold)"

definition wcag_required_ratio :: "real \<Rightarrow> bool \<Rightarrow> real" where
  "wcag_required_ratio pt bold = (if wcag_large_text pt bold then 3.0 else 4.5)"

section \<open>Properties of the contrast calculator\<close>

lemma linearize_nonneg: "0 \<le> c \<Longrightarrow> 0 \<le> linearize c"
  by (simp add: linearize_def)

lemma linearize_le_one:
  assumes "0 \<le> c" and "c \<le> 1"
  shows "linearize c \<le> 1"
proof (cases "c \<le> 0.03928")
  case True
  then show ?thesis using assms by (simp add: linearize_def)
next
  case False
  have b0: "0 \<le> (c + 0.055) / 1.055" using assms by simp
  have b1: "(c + 0.055) / 1.055 \<le> 1" using assms by simp
  have "((c + 0.055) / 1.055) powr 2.4 \<le> 1"
    using b0 b1 by (intro powr_le1) simp_all
  with False show ?thesis by (simp add: linearize_def)
qed

lemma valid_rgb_triple:
  assumes "valid_rgb c"
  obtains r g b where "c = [r, g, b]"
    and "0 \<le> r" "r \<le> 255" "0 \<le> g" "g \<le> 255" "0 \<le> b" "b \<le> 255"
proof -
  from assms have len: "length c = 3" by (simp add: valid_rgb_def)
  then obtain r g b where c: "c = [r, g, b]"
    by (auto simp: numeral_3_eq_3 length_Suc_conv)
  with assms show thesis using that by (simp add: valid_rgb_def)
qed

lemma relative_luminance_triple:
  "relative_luminance [r, g, b] =
     Inr (0.2126 * linearize (real_of_int r / 255) + 0.7152 * linearize (real_of_int g / 255)
            + 0.0722 * linearize (real_of_int b / 255))"
  by (simp add: relative_luminance_def)

lemma channel_unit:
  assumes "0 \<le> v" and "v \<le> 255"
  shows "0 \<le> real_of_int v / 255" and "real_of_int v / 255 \<le> 1"
  using assms by simp_all

lemma relative_luminance_bounds:
  assumes "valid_rgb c"
  obtains L where "relative_luminance c = Inr L" and "0 \<le> L" and "L \<le> 1"
proof -
  from assms obtain r g b where c: "c = [r, g, b]"
    and r: "0 \<le> r" "r \<le> 255" and g: "0 \<le> g" "g \<le> 255" and b: "0 \<le> b" "b \<le> 255"
    by (rule valid_rgb_triple)
  define R where "R = linearize (real_of_int r / 255)"
  define G where "G = linearize (real_of_int g / 255)"
  define B where "B = linearize (real_of_int b / 255)"
  have R: "0 \<le> R" "R \<le> 1"
    unfolding R_def using channel_unit[OF r] by (simp_all add: linearize_nonneg linearize_le_one)
  have G: "0 \<le> G" "G \<le> 1"
    unfolding G_def using channel_unit[OF g] by (simp_all add: linearize_nonneg linearize_le_one)
  have B: "0 \<le> B" "B \<le> 1"
    unfolding B_def using channel_unit[OF b] by (simp_all add: linearize_nonneg linearize_le_one)
  have eq: "relative_luminance c = Inr (0.2126 * R + 0.7152 * G + 0.0722 * B)"
    by (simp add: c relative_luminance_triple R_def G_def B_def)
  have lo: "0 \<le> 0.2126 * R + 0.7152 * G + 0.0722 * B" using R G B by simp
  have hi: "0.2126 * R + 0.7152 * G + 0.0722 * B \<le> 1" using R G B by simp
  from eq lo hi show thesis by (rule that)
qed

lemma relative_luminance_error: "relative_luminance c = Inl e \<Longrightarrow> e = ValueError"
  by (auto simp: relative_luminance_def split: list.splits)

lemma calculate_contrast_ratio_Inr:
  assumes "relative_luminance a = Inr l1" and "relative_luminance b = Inr l2"
    and "0 \<le> l1" and "0 \<le> l2"
  shows "calculate_contrast_ratio a b = Inr ((max l1 l2 + 0.05) / (min l1 l2 + 0.05))"
proof -
  have "min l1 l2 + 0.05 \<noteq> 0" using assms(3,4) by (simp add: min_def)
  then show ?thesis using assms(1,2) by (simp add: calculate_contrast_ratio_def Let_def)
qed

text \<open>
  C1. For every pair of colours with three channels in 0..255, \<open>calculate_contrast_ratio\<close>
  returns exactly the WCAG 2.1 value: channels normalised by 255, linearised with the
  0.03928 / 12.92 / 2.4 rule, combined with weights 0.2126, 0.7152, 0.0722, and the
  ratio (max + 0.05) / (min + 0.05).
\<close>

theorem calculate_contrast_ratio_follows_wcag:
  assumes "valid_rgb a" and "valid_rgb b"
  shows "calculate_contrast_ratio a b =
           Inr (wcag_ratio (wcag_luminance (a ! 0) (a ! 1) (a ! 2))
                           (wcag_luminance (b ! 0) (b ! 1) (b ! 2)))"
proof -
  from assms(1) obtain l1 where l1: "relative_luminance a = Inr l1" "0 \<le> l1"
    by (rule relative_luminance_bounds)
  from assms(2) obtain l2 where l2: "relative_luminance b = Inr l2" "0 \<le> l2"
    by (rule relative_luminance_bounds)
  have same: "wcag_linear = linearize"
    by (rule ext) (simp add: wcag_linear_def linearize_def)
  have a: "l1 = wcag_luminance (a ! 0) (a ! 1) (a ! 2)"
    using assms(1) l1(1)
    by (elim valid_rgb_triple)
       (simp add: relative_luminance_triple wcag_luminance_def wcag_normalize_def same)
  have b: "l2 = wcag_luminance (b ! 0) (b ! 1) (b ! 2)"
    using assms(2) l2(1)
    by (elim valid_rgb_triple)
       (simp add: relative_luminance_triple wcag_luminance_def wcag_normalize_def same)
  show ?thesis
    using calculate_contrast_ratio_Inr[OF l1(1) l2(1) l1(2) l2(2)]
    by (simp add: wcag_ratio_def a b)
qed

theorem calculate_contrast_ratio_follows_wcag_witness:
  "valid_rgb [255, 255, 255] \<and> valid_rgb [0, 0, 0] \<and>
   calculate_contrast_ratio [255, 255, 255] [0, 0, 0] =
     Inr (wcag_ratio (wcag_luminance 255 255 255) (wcag_luminance 0 0 0))"
  using calculate_contrast_ratio_follows_wcag [of "[255, 255, 255]" "[0, 0, 0]"]
  by (simp add: valid_rgb_def)

text \<open>
  C3. For every pair of colours with channels in 0..255 the function returns a value
  (neither the unpacking nor the division can raise), and that value lies between 1 and 21.
\<close>

theorem calculate_contrast_ratio_total_and_bounded:
  assumes "valid_rgb a" and "valid_rgb b"
  shows "\<exists>x. calculate_contrast_ratio a b = Inr x \<and> 1 \<le> x \<and> x \<le> 21"
proof -
  from assms(1) obtain l1 where l1: "relative_luminance a = Inr l1" "0 \<le> l1" "l1 \<le> 1"
    by (rule relative_luminance_bounds)
  from assms(2) obtain l2 where l2: "relative_luminance b = Inr l2" "0 \<le> l2" "l2 \<le> 1"
    by (rule relative_luminance_bounds)
  define hi where "hi = max l1 l2"
  define lo where "lo = min l1 l2"
  have lohi: "0 \<le> lo" "lo \<le> hi" "hi \<le> 1"
    using l1 l2 by (simp_all add: hi_def lo_def)
  have pos: "0 < lo + 0.05" using lohi(1) by simp
  have ge: "1 \<le> (hi + 0.05) / (lo + 0.05)"
    using lohi(2) pos by (simp add: le_divide_eq)
  have le: "(hi + 0.05) / (lo + 0.05) \<le> 21"
    using lohi pos by (simp add: divide_le_eq)
  have "calculate_contrast_ratio a b = Inr ((hi + 0.05) / (lo + 0.05))"
    unfolding hi_def lo_def by (rule calculate_contrast_ratio_Inr[OF l1(1) l2(1) l1(2) l2(2)])
  with ge le show ?thesis by blast
qed

theorem calculate_contrast_ratio_total_and_bounded_witness:
  "valid_rgb [255, 255, 255] \<and> valid_rgb [118, 118, 118] \<and>
   (\<exists>x. calculate_contrast_ratio [255, 255, 255] [118, 118, 118] = Inr x \<and> 1 \<le> x \<and> x \<le> 21)"
  using calculate_contrast_ratio_total_and_bounded [of "[255, 255, 255]" "[118, 118, 118]"]
  by (simp add: valid_rgb_def)

text \<open>
  C7. The contrast ratio is symmetric in its two colours. This holds for every pair of
  arguments, including those on which the function raises: the outcome is the same
  exception either way round.
\<close>

theorem calculate_contrast_ratio_symmetric:
  "calculate_contrast_ratio a b = calculate_contrast_ratio b a"
proof (cases "relative_luminance a")
  case (Inl e)
  then have e: "e = ValueError" by (rule relative_luminance_error)
  show ?thesis
  proof (cases "relative_luminance b")
    case (Inl e')
    then have "e' = ValueError" by (rule relative_luminance_error)
    with e Inl \<open>relative_luminance a = Inl e\<close> show ?thesis
      by (simp add: calculate_contrast_ratio_def)
  next
    case (Inr l2)
    with e \<open>relative_luminance a = Inl e\<close> show ?thesis
      by (simp add: calculate_contrast_ratio_def)
  qed
next
  case (Inr l1)
  show ?thesis
  proof (cases "relative_luminance b")
    case (Inl e')
    then have "e' = ValueError" by (rule relative_luminance_error)
    with Inl Inr show ?thesis by (simp add: calculate_contrast_ratio_def)
  next
    case (Inr l2)
    with \<open>relative_luminance a = Inr l1\<close> show ?thesis
      by (simp add: calculate_contrast_ratio_def Let_def max.commute min.commute)
  qed
qed

text \<open>
  C8. The contrast ratio of a colour (three channels in 0..255) with itself is 1.
\<close>

theorem calculate_contrast_ratio_self:
  assumes "valid_rgb c"
  shows "calculate_contrast_ratio c c = Inr 1"
proof -
  from assms obtain l where l: "relative_luminance c = Inr l" "0 \<le> l"
    by (rule relative_luminance_bounds)
  have "l + 0.05 \<noteq> 0" using l(2) by simp
  then show ?thesis
    using calculate_contrast_ratio_Inr[OF l(1) l(1) l(2) l(2)] by simp
qed

theorem calculate_contrast_ratio_self_witness:
  "valid_rgb [119, 119, 119] \<and> calculate_contrast_ratio [119, 119, 119] [119, 119, 119] = Inr 1"
  using calculate_contrast_ratio_self [of "[119, 119, 119]"]
  by (simp add: valid_rgb_def)

section \<open>Properties of the colour-vision-deficiency transform\<close>

lemma keys_TRANSFORMATIONS: "map fst TRANSFORMATIONS = cvd_variants"
  by (simp add: TRANSFORMATIONS_def cvd_variants_def)

lemma map_of_TRANSFORMATIONS_None:
  "map_of TRANSFORMATIONS k = None \<longleftrightarrow> k \<notin> set cvd_variants"
  by (simp add: map_of_eq_None_iff keys_TRANSFORMATIONS[symmetric])

lemma triples_map: "triples (map f xs) = map (map f) (triples xs)"
  by (induction xs rule: triples.induct) simp_all

lemma triples_stack:
  "triples (concat (map (\<lambda>v. [f v, f v, f v]) xs)) = map (\<lambda>v. [f v, f v, f v]) xs"
  by (induction xs) simp_all

lemma length_stack: "length (concat (map (\<lambda>v. [f v, f v, f v]) xs)) = 3 * length xs"
  by (induction xs) simp_all

lemma dot_row_matrix_times: "dot_row fa m p = matrix_times fa m p"
  by (simp add: dot_row_def matrix_times_def)

lemma clip_clamp: "clip x 0 1 = clamp_unit x"
  by (simp add: clip_def clamp_unit_def)

lemma clamp_unit_range: "0 \<le> clamp_unit x" "clamp_unit x \<le> 1"
  by (simp_all add: clamp_unit_def)

lemma exact_arithmetic_rounding: "double_rounding exact_arithmetic"
  by (simp add: double_rounding_def exact_arithmetic_def)

lemma exact_arithmetic_dot: "accurate_dot exact_arithmetic"
  by (simp add: accurate_dot_def exact_arithmetic_def)

text \<open>
  Rescaling a double between two bytes gives a double between them, and the conversion
  to eight bits then only drops the fraction.
\<close>

lemma rescale_between:
  assumes fa: "double_rounding fa"
    and lo: "0 \<le> lo" "of_int lo \<le> x * 255"
    and hi: "hi \<le> 255" "x * 255 \<le> of_int hi"
  shows "astype_uint8 (fl_mul fa x 255) = \<lfloor>fl_mul fa x 255\<rfloor>"
    and "lo \<le> \<lfloor>fl_mul fa x 255\<rfloor>" and "\<lfloor>fl_mul fa x 255\<rfloor> \<le> hi"
proof -
  define y where "y = fl_mul fa x 255"
  from lo hi have lohi: "lo \<le> hi"
    by (metis of_int_le_iff order_trans)
  from fa have mono: "u \<le> v \<Longrightarrow> fl_round fa u \<le> fl_round fa v" for u v
    by (simp add: double_rounding_def)
  from fa lo(1) hi(1) lohi have fix_lo: "fl_round fa (of_int lo) = of_int lo"
    by (simp add: double_rounding_def)
  from fa lo(1) hi(1) lohi have fix_hi: "fl_round fa (of_int hi) = of_int hi"
    by (simp add: double_rounding_def)
  have ylo: "of_int lo \<le> y"
    using mono[OF lo(2)] by (simp add: y_def fl_mul_def fix_lo)
  have yhi: "y \<le> of_int hi"
    using mono[OF hi(2)] by (simp add: y_def fl_mul_def fix_hi)
  have flo: "lo \<le> \<lfloor>y\<rfloor>" using ylo by (simp add: le_floor_iff)
  have fhi: "\<lfloor>y\<rfloor> \<le> hi" using yhi by (simp add: floor_le_iff)
  have y0: "0 \<le> y" using ylo lo(1) by (metis of_int_0_le_iff order_trans)
  have "\<lfloor>y\<rfloor> mod 256 = \<lfloor>y\<rfloor>"
    using flo fhi lo(1) hi(1) by (intro mod_pos_pos_trivial) linarith+
  with y0 show "astype_uint8 (fl_mul fa x 255) = \<lfloor>fl_mul fa x 255\<rfloor>"
    by (simp add: astype_uint8_def y_def)
  from flo show "lo \<le> \<lfloor>fl_mul fa x 255\<rfloor>" by (simp add: y_def)
  from fhi show "\<lfloor>fl_mul fa x 255\<rfloor> \<le> hi" by (simp add: y_def)
qed

lemma rescale_clamped:
  assumes "double_rounding fa"
  shows "astype_uint8 (fl_mul fa (clamp_unit x) 255) = \<lfloor>fl_mul fa (clamp_unit x) 255\<rfloor>"
    and "0 \<le> \<lfloor>fl_mul fa (clamp_unit x) 255\<rfloor>" and "\<lfloor>fl_mul fa (clamp_unit x) 255\<rfloor> \<le> 255"
proof -
  have lo: "of_int 0 \<le> clamp_unit x * 255" using clamp_unit_range(1)[of x] by simp
  have hi: "clamp_unit x * 255 \<le> of_int 255" using clamp_unit_range(2)[of x] by simp
  show "astype_uint8 (fl_mul fa (clamp_unit x) 255) = \<lfloor>fl_mul fa (clamp_unit x) 255\<rfloor>"
    by (rule rescale_between(1)[OF assms _ lo _ hi]) simp_all
  show "0 \<le> \<lfloor>fl_mul fa (clamp_unit x) 255\<rfloor>"
    by (rule rescale_between(2)[OF assms _ lo _ hi]) simp_all
  show "\<lfloor>fl_mul fa (clamp_unit x) 255\<rfloor> \<le> 255"
    by (rule rescale_between(3)[OF assms _ lo _ hi]) simp_all
qed

lemma simulated_pixel:
  assumes "double_rounding fa"
  shows "map (\<lambda>x. astype_uint8 (fl_mul fa (clip x 0 1) 255))
           (dot_row fa m (map (\<lambda>v. fl_div fa (real_of_int v) 255) p))
         = cvd_pixel fa m p"
  by (simp add: cvd_pixel_def dot_row_matrix_times clip_clamp rescale_clamped(1)[OF assms])

lemma valid_image_reshape:
  assumes "valid_image img"
  shows "reshape_rows3 (if length (shape img) = 2
            then concat (map (\<lambda>v. [v, v, v]) (map f (flat img)))
            else map f (flat img))
         = Some (map (map f) (rgb_pixels img))"
proof (cases "length (shape img) = 2")
  case True
  then show ?thesis
    by (simp add: reshape_rows3_def rgb_pixels_def o_def length_stack triples_stack)
next
  case False
  with assms have "length (flat img) mod 3 = 0"
    by (auto simp: valid_image_def split: list.splits)
  with False show ?thesis
    by (simp add: reshape_rows3_def triples_map rgb_pixels_def)
qed

lemma simulate_valid:
  assumes fa: "double_rounding fa"
    and t: "map_of TRANSFORMATIONS cvd_type = Some t"
    and img: "fs image_path = Some img" and v: "valid_image img"
  shows "simulate_colorblindness fa fs image_path cvd_type =
           (Inr (Some \<lparr>shape = (if length (shape img) = 2 then shape img @ [3] else shape img),
                         flat = concat (map (cvd_pixel fa (matrix t)) (rgb_pixels img))\<rparr>),
            [image_path])"
proof -
  have "map (\<lambda>x. astype_uint8 (fl_mul fa x 255))
          (concat (map (\<lambda>p. map (\<lambda>x. clip x 0 1) (dot_row fa (matrix t) p))
                     (map (map (\<lambda>v. fl_div fa (real_of_int v) 255)) (rgb_pixels img))))
        = concat (map (cvd_pixel fa (matrix t)) (rgb_pixels img))"
    by (simp add: map_concat o_def simulated_pixel[OF fa])
  then show ?thesis
    using valid_image_reshape[OF v, of "\<lambda>v. fl_div fa (real_of_int v) 255"]
    by (simp add: simulate_colorblindness_def t img Let_def)
qed





text \<open>
  On a screenshot of three channels, or a greyscale one, every pixel of the
  achromatopsia simulation has equal red, green and blue values: the three rows of the
  matrix are the same, so the same double is computed three times.
\<close>

lemma achromatopsia_grey_on_valid_image:
  assumes "double_rounding fa" and "fs image_path = Some img" and "valid_image img"
  shows "\<exists>out. fst (simulate_colorblindness fa fs image_path ''achromatopsia'') = Inr (Some out) \<and>
           shape out = (if length (shape img) = 2 then shape img @ [3] else shape img) \<and>
           length (triples (flat out)) = length (rgb_pixels img) \<and>
           (\<forall>p \<in> set (triples (flat out)). \<exists>v. p = [v, v, v])"
proof -
  define m :: "real list list" where
    "m = [[0.299, 0.587, 0.114], [0.299, 0.587, 0.114], [0.299, 0.587, 0.114]]"
  define t where
    "t = \<lparr>name = ''Achromatopsia (Total color blindness)'', severity = ''complete'', matrix = m\<rparr>"
  have t: "map_of TRANSFORMATIONS ''achromatopsia'' = Some t"
    by (simp add: TRANSFORMATIONS_def t_def m_def)
  define grey where
    "grey p = \<lfloor>fl_mul fa (clamp_unit (fl_dot fa (map (\<lambda>v. fl_div fa (real_of_int v) 255) p)
                 [0.299, 0.587, 0.114])) 255\<rfloor>" for p :: "int list"
  have px: "cvd_pixel fa (matrix t) = (\<lambda>p. [grey p, grey p, grey p])"
    by (rule ext) (simp add: cvd_pixel_def matrix_times_def t_def m_def grey_def)
  define out where
    "out = \<lparr>shape = (if length (shape img) = 2 then shape img @ [3] else shape img),
            flat = concat (map (\<lambda>p. [grey p, grey p, grey p]) (rgb_pixels img))\<rparr>"
  have res: "fst (simulate_colorblindness fa fs image_path ''achromatopsia'') = Inr (Some out)"
    by (simp add: simulate_valid[where fs = fs and image_path = image_path, OF assms(1) t assms(2,3)]
          out_def px)
  have sh: "shape out = (if length (shape img) = 2 then shape img @ [3] else shape img)"
    by (simp add: out_def)
  have tr: "triples (flat out) = map (\<lambda>p. [grey p, grey p, grey p]) (rgb_pixels img)"
    by (simp add: out_def triples_stack)
  have n: "length (triples (flat out)) = length (rgb_pixels img)"
    by (simp add: tr)
  have eq: "\<forall>p \<in> set (triples (flat out)). \<exists>v. p = [v, v, v]"
    unfolding tr by auto
  from res sh n eq show ?thesis by blast
qed

lemma unit_of_bytes:
  assumes "double_rounding fa"
  shows "fl_div fa 0 255 = 0" and "fl_div fa 255 255 = 1"
proof -
  have zero: "fl_round fa (of_int 0) = of_int 0"
    using assms unfolding double_rounding_def by (elim conjE allE[where x = "0::int"]) simp
  have one: "fl_round fa (of_int 1) = of_int 1"
    using assms unfolding double_rounding_def by (elim conjE allE[where x = "1::int"]) simp
  from zero show "fl_div fa 0 255 = 0" by (simp add: fl_div_def)
  from one show "fl_div fa 255 255 = 1" by (simp add: fl_div_def)
qed

lemma strip_simulated:
  assumes "double_rounding fa"
  shows "simulate_colorblindness fa (\<lambda>p. Some rgba_strip) image_path ''achromatopsia'' =
           (Inr (Some \<lparr>shape = [1, 3, 4],
                        flat = (let dark = astype_uint8 (fl_mul fa (clamp_unit
                                             (fl_dot fa [0, 0, 0] [0.299, 0.587, 0.114])) 255);
                                    bright = astype_uint8 (fl_mul fa (clamp_unit
                                             (fl_dot fa [1, 1, 1] [0.299, 0.587, 0.114])) 255)
                                in [dark, dark, dark, dark, dark, dark,
                                    bright, bright, bright, bright, bright, bright])\<rparr>),
            [image_path])"
proof -
  have t: "map_of TRANSFORMATIONS ''achromatopsia'' =
             Some \<lparr>name = ''Achromatopsia (Total color blindness)'', severity = ''complete'',
                   matrix = [[0.299, 0.587, 0.114], [0.299, 0.587, 0.114], [0.299, 0.587, 0.114]]\<rparr>"
    by (simp add: TRANSFORMATIONS_def)
  have units: "map (\<lambda>v. fl_div fa (real_of_int v) 255) (flat rgba_strip)
                 = [0, 0, 0, 0, 0, 0, 1, 1, 1, 1, 1, 1]"
    by (simp add: rgba_strip_def unit_of_bytes[OF assms])
  have groups: "reshape_rows3 [0, 0, 0, 0, 0, 0, 1, 1, 1, 1, 1, 1::real]
                  = Some [[0, 0, 0], [0, 0, 0], [1, 1, 1], [1, 1, 1]]"
    by (simp add: reshape_rows3_def)
  have sh: "shape rgba_strip = [1, 3, 4]" by (simp add: rgba_strip_def)
  show ?thesis
    by (simp add: simulate_colorblindness_def t units groups sh dot_row_def clip_clamp Let_def)
qed

lemma strip_dark:
  assumes fa: "double_rounding fa" and acc: "accurate_dot fa"
  shows "astype_uint8 (fl_mul fa (clamp_unit (fl_dot fa [0, 0, 0] [0.299, 0.587, 0.114])) 255) \<le> 1"
proof -
  define u where "u = fl_dot fa [0, 0, 0] [0.299, 0.587, 0.114]"
  from acc have "\<bar>u - sum_list (map2 (*) [0, 0, 0] [0.299, 0.587, 0.114])\<bar> \<le> 1 / 1000"
    using acc[unfolded accurate_dot_def, rule_format, of "[0, 0, 0]" "[0.299, 0.587, 0.114]"]
    by (simp add: u_def)
  then have "\<bar>u\<bar> \<le> 1 / 1000" by simp
  then have b: "- (1 / 1000) \<le> u" "u \<le> 1 / 1000" by linarith+
  have c: "0 \<le> clamp_unit u" "clamp_unit u \<le> 1 / 1000"
    using b by (simp_all add: clamp_unit_def)
  have lo: "of_int 0 \<le> clamp_unit u * 255" using c(1) by simp
  have hi: "clamp_unit u * 255 \<le> of_int 1" using c(2) by simp
  have "astype_uint8 (fl_mul fa (clamp_unit u) 255) = \<lfloor>fl_mul fa (clamp_unit u) 255\<rfloor>"
    by (rule rescale_between(1)[OF fa _ lo _ hi]) simp_all
  moreover have "\<lfloor>fl_mul fa (clamp_unit u) 255\<rfloor> \<le> 1"
    by (rule rescale_between(3)[OF fa _ lo _ hi]) simp_all
  ultimately show ?thesis by (simp add: u_def)
qed

lemma strip_bright:
  assumes fa: "double_rounding fa" and acc: "accurate_dot fa"
  shows "254 \<le> astype_uint8 (fl_mul fa (clamp_unit (fl_dot fa [1, 1, 1] [0.299, 0.587, 0.114])) 255)"
proof -
  define u where "u = fl_dot fa [1, 1, 1] [0.299, 0.587, 0.114]"
  from acc have "\<bar>u - sum_list (map2 (*) [1, 1, 1] [0.299, 0.587, 0.114])\<bar> \<le> 1 / 1000"
    using acc[unfolded accurate_dot_def, rule_format, of "[1, 1, 1]" "[0.299, 0.587, 0.114]"]
    by (simp add: u_def)
  then have "\<bar>u - 1\<bar> \<le> 1 / 1000" by simp
  then have b: "999 / 1000 \<le> u" by linarith
  have c: "999 / 1000 \<le> clamp_unit u" "clamp_unit u \<le> 1"
    using b by (simp_all add: clamp_unit_def)
  have lo: "of_int 254 \<le> clamp_unit u * 255" using c(1) by simp
  have hi: "clamp_unit u * 255 \<le> of_int 255" using c(2) by simp
  have "astype_uint8 (fl_mul fa (clamp_unit u) 255) = \<lfloor>fl_mul fa (clamp_unit u) 255\<rfloor>"
    by (rule rescale_between(1)[OF fa _ lo _ hi]) simp_all
  moreover have "254 \<le> \<lfloor>fl_mul fa (clamp_unit u) 255\<rfloor>"
    by (rule rescale_between(2)[OF fa _ lo _ hi]) simp_all
  ultimately show ?thesis by (simp add: u_def)
qed

text \<open>
  C6, on the code. The array of a PNG with an alpha channel has four values per pixel,
  and the code regroups them in threes without converting the image to RGB first, as it
  does for a greyscale image. For the strip of three RGBA pixels (transparent black,
  opaque blue, opaque white) the call returns an image of the same shape whose second
  pixel has red and green at most 1 and blue at least 254: it is not grey, in any
  arithmetic that rounds like doubles and whose dot product is accurate to a thousandth.
\<close>

theorem achromatopsia_four_channels_not_grey:
  assumes "double_rounding fa" and "accurate_dot fa"
  shows "\<exists>out. fst (simulate_colorblindness fa (\<lambda>p. Some rgba_strip) image_path ''achromatopsia'')
                 = Inr (Some out) \<and>
           shape out = [1, 3, 4] \<and> length (flat out) = 12 \<and>
           flat out ! 4 \<le> 1 \<and> flat out ! 5 \<le> 1 \<and> 254 \<le> flat out ! 6"
proof -
  define dark where
    "dark = astype_uint8 (fl_mul fa (clamp_unit (fl_dot fa [0, 0, 0] [0.299, 0.587, 0.114])) 255)"
  define bright where
    "bright = astype_uint8 (fl_mul fa (clamp_unit (fl_dot fa [1, 1, 1] [0.299, 0.587, 0.114])) 255)"
  define out where
    "out = \<lparr>shape = [1, 3, 4],
            flat = [dark, dark, dark, dark, dark, dark,
                    bright, bright, bright, bright, bright, bright]\<rparr>"
  have res: "fst (simulate_colorblindness fa (\<lambda>p. Some rgba_strip) image_path ''achromatopsia'')
               = Inr (Some out)"
    by (simp add: strip_simulated[OF assms(1)] out_def dark_def bright_def Let_def)
  have d: "dark \<le> 1" unfolding dark_def by (rule strip_dark[OF assms])
  have b: "254 \<le> bright" unfolding bright_def by (rule strip_bright[OF assms])
  have "shape out = [1, 3, 4]" and "length (flat out) = 12"
    and "flat out ! 4 = dark" and "flat out ! 5 = dark" and "flat out ! 6 = bright"
    by (simp_all add: out_def)
  with res d b show ?thesis by auto
qed

theorem achromatopsia_four_channels_not_grey_witness:
  "double_rounding exact_arithmetic \<and> accurate_dot exact_arithmetic \<and>
   (\<exists>out. fst (simulate_colorblindness exact_arithmetic (\<lambda>p. Some rgba_strip)
                 ''shot.png'' ''achromatopsia'') = Inr (Some out) \<and>
      shape out = [1, 3, 4] \<and> length (flat out) = 12 \<and>
      flat out ! 4 \<le> 1 \<and> flat out ! 5 \<le> 1 \<and> 254 \<le> flat out ! 6)"
  using achromatopsia_four_channels_not_grey
          [OF exact_arithmetic_rounding exact_arithmetic_dot, of "''shot.png''"]
    exact_arithmetic_rounding exact_arithmetic_dot
  by simp

text \<open>
  C9. The call raises exactly when the variant is not one of the eight keys; the
  exception is then ValueError, it is raised whatever the file system holds, and no
  file has been opened.
\<close>

theorem simulate_colorblindness_raises_iff_unknown:
  "((\<exists>e. fst (simulate_colorblindness fa fs image_path cvd_type) = Inl e)
      \<longleftrightarrow> cvd_type \<notin> set cvd_variants) \<and>
   (cvd_type \<notin> set cvd_variants
      \<longrightarrow> simulate_colorblindness fa fs image_path cvd_type = (Inl ValueError, []))"
proof (cases "map_of TRANSFORMATIONS cvd_type")
  case None
  then have "cvd_type \<notin> set cvd_variants" by (simp add: map_of_TRANSFORMATIONS_None)
  with None show ?thesis by (simp add: simulate_colorblindness_def)
next
  case (Some t)
  then have known: "cvd_type \<in> set cvd_variants"
    using map_of_TRANSFORMATIONS_None[of cvd_type] by auto
  have "\<not> (\<exists>e. fst (simulate_colorblindness fa fs image_path cvd_type) = Inl e)"
    by (simp add: simulate_colorblindness_def Some Let_def split: option.splits)
  with known show ?thesis by simp
qed

theorem simulate_colorblindness_raises_iff_unknown_witness:
  "''tetrachromacy'' \<notin> set cvd_variants \<and>
   simulate_colorblindness exact_arithmetic (\<lambda>p. Some \<lparr>shape = [1, 1, 3], flat = [255, 0, 0]\<rparr>)
       ''shot.png'' ''tetrachromacy'' = (Inl ValueError, [])"
  using simulate_colorblindness_raises_iff_unknown
          [of exact_arithmetic "\<lambda>p. Some \<lparr>shape = [1, 1, 3], flat = [255, 0, 0]\<rparr>"
              "''shot.png''" "''tetrachromacy''"]
  by (simp add: cvd_variants_def)

section \<open>Properties of the analyzer, its summaries and its exit code\<close>

lemma analyze_screenshot_results:
  "contrast_results (fst (analyze_screenshot env a p)) = contrast_results a \<or>
   (\<exists>r. contrast_results (fst (analyze_screenshot env a p)) = contrast_results a @ [r] \<and>
        result_summary r = calculate_summary (issues r) (passed r))"
  by (auto simp: analyze_screenshot_def Let_def split: option.splits prod.splits)

lemma reachable_summarized:
  "reachable env a \<Longrightarrow> r \<in> set (contrast_results a)
     \<Longrightarrow> result_summary r = calculate_summary (issues r) (passed r)"
proof (induction arbitrary: r rule: reachable.induct)
  case (fresh ps)
  then show ?case by simp
next
  case (analyzed a p)
  from analyze_screenshot_results[of env a p] analyzed show ?case by auto
qed








subsection \<open>The example run\<close>

lemma luminance_black: "relative_luminance [0, 0, 0] = Inr 0"
  by (simp add: relative_luminance_def linearize_def)

lemma luminance_white: "relative_luminance [255, 255, 255] = Inr 1"
  by (simp add: relative_luminance_def linearize_def)

lemma ratio_black_white: "calculate_contrast_ratio [0, 0, 0] [255, 255, 255] = Inr 21"
  by (simp add: calculate_contrast_ratio_def luminance_black luminance_white)



lemma sampled_pair_passes:
  "\<exists>c. check_color_pair_contrast
          \<lparr>pair_fg_color = [0, 0, 0], pair_bg_color = [255, 255, 255],
           pair_location = [(''x'', 5), (''y'', 5)], sample_type = ''random''\<rparr> = Some c \<and> passes c"
  by (simp add: check_color_pair_contrast_def ratio_black_white)

lemma analyze_ok:
  "\<exists>r. analyze_screenshot shots_world a ''shots/ok.png''
          = (a\<lparr>contrast_results := contrast_results a @ [r]\<rparr>, Some r)
        \<and> issues r = [] \<and> failed_checks (result_summary r) = 0"
  using sampled_pair_passes
  by (auto simp add: analyze_screenshot_def shots_world_def black_on_white_def
        calculate_summary_def Let_def)





lemma fifteen_point_checked:
  "\<exists>c. check_text_contrast black_on_white fifteen_point_word = Some c \<and> required c = 3"
  by (simp add: check_text_contrast_def black_on_white_def fifteen_point_word_def
        ratio_black_white estimate_font_size_def Let_def)

text \<open>
  C2 (as amended). Whenever \<open>check_text_contrast\<close> yields a result for a region, the
  threshold it applies is 3.0 when the estimated font size, 0.75 times the height of the
  box, is at least 14pt, and 4.5 otherwise: the threshold the rule gives for bold text,
  since every text is taken to be bold. The check passes exactly when the ratio
  computed from the sampled colours is at least that threshold.
\<close>

theorem check_text_contrast_threshold:
  assumes "check_text_contrast img region = Some c"
  shows "required c = wcag_required_ratio (estimate_font_size (region_h region)) True \<and>
         required c = (if estimate_font_size (region_h region) \<ge> 14 then 3.0 else 4.5) \<and>
         is_large_text c = Some (estimate_font_size (region_h region) \<ge> 14) \<and>
         (\<exists>r. calculate_contrast_ratio (fg_color c) (bg_color c) = Inr r \<and>
              (passes c \<longleftrightarrow> r \<ge> required c)) \<and>
         get_pixel_color img (region_x region + region_w region div 2)
             (region_y region + region_h region div 2) = Some (fg_color c) \<and>
         get_surrounding_color img (region_x region + region_w region div 2)
             (region_y region + region_h region div 2) (region_h region div 2 + 5)
           = Some (bg_color c)"
  using assms
  by (auto simp: check_text_contrast_def Let_def wcag_required_ratio_def wcag_large_text_def
           split: option.splits sum.splits if_splits)

theorem check_text_contrast_threshold_witness:
  "\<exists>c. check_text_contrast black_on_white fifteen_point_word = Some c \<and>
       required c = wcag_required_ratio (estimate_font_size (region_h fifteen_point_word)) True \<and>
       required c = 3 \<and> passes c"
proof -
  from fifteen_point_checked obtain c where
    c: "check_text_contrast black_on_white fifteen_point_word = Some c" by blast
  have fg: "get_pixel_color black_on_white x y = Some [0, 0, 0]" for x y
    by (simp add: black_on_white_def)
  have bg: "get_surrounding_color black_on_white x y k = Some [255, 255, 255]" for x y k
    by (simp add: black_on_white_def)
  from check_text_contrast_threshold[OF c] fg bg ratio_black_white
  have "required c = wcag_required_ratio (estimate_font_size (region_h fifteen_point_word)) True"
    and "required c = 3" and "passes c"
    by (auto simp: fifteen_point_word_def estimate_font_size_def)
  with c show ?thesis by blast
qed

text \<open>
  C2, as stated, fails: a word in a box 20 pixels high is estimated at 15pt, and the
  code requires 3.0 for it, where the rule requires 4.5 unless the word is bold.
\<close>

theorem check_text_contrast_not_bold_counterexample:
  "map_option required (check_text_contrast black_on_white fifteen_point_word) = Some 3 \<and>
   estimate_font_size (region_h fifteen_point_word) = 15 \<and>
   wcag_required_ratio (estimate_font_size (region_h fifteen_point_word)) False = 4.5"
proof -
  from fifteen_point_checked
  have "map_option required (check_text_contrast black_on_white fifteen_point_word) = Some 3"
    by auto
  then show ?thesis
    by (simp add: fifteen_point_word_def estimate_font_size_def wcag_required_ratio_def
          wcag_large_text_def)
qed

lemma calculate_summary_consistent:
  "summary_consistent (total_checks (calculate_summary iss pas))
     (passed_checks (calculate_summary iss pas)) (failed_checks (calculate_summary iss pas))
     (pass_rate (calculate_summary iss pas)) (wcag_compliant (calculate_summary iss pas)) 1"
  by (simp add: calculate_summary_def summary_consistent_def Let_def add.commute)

lemma get_summary_consistent:
  assumes "reachable env a"
  shows "summary_consistent (overall_total_checks (get_summary a)) (total_passed (get_summary a))
           (total_failed (get_summary a)) (overall_pass_rate (get_summary a))
           (overall_wcag_compliant (get_summary a)) (screenshots_analyzed (get_summary a))"
proof (cases "contrast_results a = []")
  case True
  then show ?thesis by (simp add: get_summary_def summary_consistent_def)
next
  case False
  have each: "total_checks (result_summary r)
                = passed_checks (result_summary r) + failed_checks (result_summary r)"
    if "r \<in> set (contrast_results a)" for r
    using reachable_summarized[OF assms that] by (simp add: calculate_summary_def Let_def)
  have "sum_list (map (\<lambda>r. total_checks (result_summary r)) (contrast_results a))
          = sum_list (map (\<lambda>r. passed_checks (result_summary r) + failed_checks (result_summary r))
                        (contrast_results a))"
    using each by (intro arg_cong[where f = sum_list] map_cong) simp_all
  also have "\<dots> = sum_list (map (\<lambda>r. passed_checks (result_summary r)) (contrast_results a))
                   + sum_list (map (\<lambda>r. failed_checks (result_summary r)) (contrast_results a))"
    by (simp add: sum_list_addf)
  finally have tot:
    "sum_list (map (\<lambda>r. total_checks (result_summary r)) (contrast_results a))
       = sum_list (map (\<lambda>r. passed_checks (result_summary r)) (contrast_results a))
         + sum_list (map (\<lambda>r. failed_checks (result_summary r)) (contrast_results a))" .
  have len: "1 \<le> length (contrast_results a)"
    using False by (cases "contrast_results a") simp_all
  show ?thesis
    using False len by (simp add: get_summary_def summary_consistent_def Let_def tot)
qed

text \<open>
  C10. In every state an analyzer can reach, each per-screenshot summary and the overall
  summary satisfy: the total is passed plus failed; the pass rate is passed / total * 100
  when the total is positive and 0 otherwise; and the summary is compliant exactly when
  nothing failed and at least one screenshot was analysed (a per-screenshot summary is of
  one analysed screenshot). The counts of a per-screenshot summary are the lengths of its
  lists, and the overall summary counts the results.
\<close>

theorem summaries_consistent:
  assumes "reachable env a"
  shows "(\<forall>r \<in> set (contrast_results a).
            summary_consistent (total_checks (result_summary r)) (passed_checks (result_summary r))
              (failed_checks (result_summary r)) (pass_rate (result_summary r))
              (wcag_compliant (result_summary r)) 1 \<and>
            passed_checks (result_summary r) = length (passed r) \<and>
            failed_checks (result_summary r) = length (issues r)) \<and>
         summary_consistent (overall_total_checks (get_summary a)) (total_passed (get_summary a))
           (total_failed (get_summary a)) (overall_pass_rate (get_summary a))
           (overall_wcag_compliant (get_summary a)) (screenshots_analyzed (get_summary a)) \<and>
         screenshots_analyzed (get_summary a) = length (contrast_results a)"
proof -
  have per: "summary_consistent (total_checks (result_summary r)) (passed_checks (result_summary r))
               (failed_checks (result_summary r)) (pass_rate (result_summary r))
               (wcag_compliant (result_summary r)) 1 \<and>
             passed_checks (result_summary r) = length (passed r) \<and>
             failed_checks (result_summary r) = length (issues r)"
    if "r \<in> set (contrast_results a)" for r
  proof -
    have eq: "result_summary r = calculate_summary (issues r) (passed r)"
      by (rule reachable_summarized[OF assms that])
    have "passed_checks (result_summary r) = length (passed r)"
      and "failed_checks (result_summary r) = length (issues r)"
      by (simp_all add: eq calculate_summary_def Let_def)
    with calculate_summary_consistent[of "issues r" "passed r"] show ?thesis
      by (simp add: eq)
  qed
  have n: "screenshots_analyzed (get_summary a) = length (contrast_results a)"
    by (simp add: get_summary_def Let_def)
  from per get_summary_consistent[OF assms] n show ?thesis by blast
qed

theorem summaries_consistent_witness:
  "reachable shots_world
     (fst (analyze_screenshot shots_world
             \<lparr>screenshots = [''shots/ok.png''], contrast_results = []\<rparr> ''shots/ok.png'')) \<and>
   length (contrast_results
     (fst (analyze_screenshot shots_world
             \<lparr>screenshots = [''shots/ok.png''], contrast_results = []\<rparr> ''shots/ok.png''))) = 1 \<and>
   summary_consistent
     (overall_total_checks (get_summary
        (fst (analyze_screenshot shots_world
                \<lparr>screenshots = [''shots/ok.png''], contrast_results = []\<rparr> ''shots/ok.png''))))
     (total_passed (get_summary
        (fst (analyze_screenshot shots_world
                \<lparr>screenshots = [''shots/ok.png''], contrast_results = []\<rparr> ''shots/ok.png''))))
     (total_failed (get_summary
        (fst (analyze_screenshot shots_world
                \<lparr>screenshots = [''shots/ok.png''], contrast_results = []\<rparr> ''shots/ok.png''))))
     (overall_pass_rate (get_summary
        (fst (analyze_screenshot shots_world
                \<lparr>screenshots = [''shots/ok.png''], contrast_results = []\<rparr> ''shots/ok.png''))))
     (overall_wcag_compliant (get_summary
        (fst (analyze_screenshot shots_world
                \<lparr>screenshots = [''shots/ok.png''], contrast_results = []\<rparr> ''shots/ok.png''))))
     1"
proof -
  define a where
    "a = fst (analyze_screenshot shots_world
                \<lparr>screenshots = [''shots/ok.png''], contrast_results = []\<rparr> ''shots/ok.png'')"
  have r: "reachable shots_world a"
    unfolding a_def by (rule reachable.analyzed) (rule reachable.fresh)
  have len: "length (contrast_results a) = 1"
    using analyze_ok[of "\<lparr>screenshots = [''shots/ok.png''], contrast_results = []\<rparr>"]
    by (auto simp: a_def)
  from summaries_consistent[OF r]
  have sc: "summary_consistent (overall_total_checks (get_summary a)) (total_passed (get_summary a))
              (total_failed (get_summary a)) (overall_pass_rate (get_summary a))
              (overall_wcag_compliant (get_summary a)) (screenshots_analyzed (get_summary a))"
    and n: "screenshots_analyzed (get_summary a) = length (contrast_results a)"
    by blast+
  have n1: "screenshots_analyzed (get_summary a) = 1" by (simp only: n len)
  have "summary_consistent (overall_total_checks (get_summary a)) (total_passed (get_summary a))
          (total_failed (get_summary a)) (overall_pass_rate (get_summary a))
          (overall_wcag_compliant (get_summary a)) 1"
    using sc unfolding n1 .
  with r len show ?thesis unfolding a_def by blast
qed





end
